theory Spec2Isabelle
  imports Main
begin

section \<open>Python strings and paths\<close>

text \<open>
  A Python \<open>str\<close> is modelled as a \<open>string\<close>: one \<open>char\<close> per code point, so the
  model covers the code points below 256. File contents are \<open>bytes\<close>, one \<open>char\<close> per
  byte. Of \<open>print\<close> the model keeps what the control flow depends on, whether it raises;
  the console is not part of the state.
\<close>

type_synonym bytes = "char list"

definition isspace :: "char \<Rightarrow> bool" where
  \<comment> \<open>the code points below 256 that \<open>str.isspace\<close> accepts\<close>
  "isspace c = (c \<in> set [CHR 0x09, CHR 0x0A, CHR 0x0B, CHR 0x0C, CHR 0x0D, CHR 0x1C, CHR 0x1D,
     CHR 0x1E, CHR 0x1F, CHR 0x20, CHR 0x85, CHR 0xA0])"

definition lstrip :: "string \<Rightarrow> string" where
  "lstrip s = dropWhile isspace s"

definition rstrip :: "string \<Rightarrow> string" where
  "rstrip s = rev (dropWhile isspace (rev s))"

definition strip :: "string \<Rightarrow> string" where
  "strip s = rstrip (lstrip s)"

definition startswith :: "string \<Rightarrow> string \<Rightarrow> bool" where
  \<comment> \<open>\<open>startswith p s\<close> is Python's \<open>s.startswith(p)\<close>\<close>
  "startswith p s = (take (length p) s = p)"

definition endswith :: "string \<Rightarrow> string \<Rightarrow> bool" where
  \<comment> \<open>\<open>endswith p s\<close> is Python's \<open>s.endswith(p)\<close>\<close>
  "endswith p s = (length p \<le> length s \<and> drop (length s - length p) s = p)"

definition upper_letters :: string where
  "upper_letters = ''ABCDEFGHIJKLMNOPQRSTUVWXYZ'' @
     [CHR 0xC0, CHR 0xC1, CHR 0xC2, CHR 0xC3, CHR 0xC4, CHR 0xC5, CHR 0xC6, CHR 0xC7,
      CHR 0xC8, CHR 0xC9, CHR 0xCA, CHR 0xCB, CHR 0xCC, CHR 0xCD, CHR 0xCE, CHR 0xCF,
      CHR 0xD0, CHR 0xD1, CHR 0xD2, CHR 0xD3, CHR 0xD4, CHR 0xD5, CHR 0xD6,
      CHR 0xD8, CHR 0xD9, CHR 0xDA, CHR 0xDB, CHR 0xDC, CHR 0xDD, CHR 0xDE]"

definition lower_letters :: string where
  "lower_letters = ''abcdefghijklmnopqrstuvwxyz'' @
     [CHR 0xE0, CHR 0xE1, CHR 0xE2, CHR 0xE3, CHR 0xE4, CHR 0xE5, CHR 0xE6, CHR 0xE7,
      CHR 0xE8, CHR 0xE9, CHR 0xEA, CHR 0xEB, CHR 0xEC, CHR 0xED, CHR 0xEE, CHR 0xEF,
      CHR 0xF0, CHR 0xF1, CHR 0xF2, CHR 0xF3, CHR 0xF4, CHR 0xF5, CHR 0xF6,
      CHR 0xF8, CHR 0xF9, CHR 0xFA, CHR 0xFB, CHR 0xFC, CHR 0xFD, CHR 0xFE]"

definition lower_char :: "char \<Rightarrow> char" where
  "lower_char c = (case map_of (zip upper_letters lower_letters) c of None \<Rightarrow> c | Some d \<Rightarrow> d)"

definition lower :: "string \<Rightarrow> string" where
  \<comment> \<open>\<open>str.lower\<close> on code points below 256\<close>
  "lower s = map lower_char s"

fun join :: "string \<Rightarrow> string list \<Rightarrow> string" where
  "join sep [] = []"
| "join sep [x] = x"
| "join sep (x # y # ys) = x @ sep @ join sep (y # ys)"

fun rfind_from :: "char \<Rightarrow> string \<Rightarrow> int \<Rightarrow> int" where
  "rfind_from c [] i = - 1"
| "rfind_from c (x # xs) i =
     (let r = rfind_from c xs (i + 1) in if 0 \<le> r then r else if x = c then i else - 1)"

definition rfind :: "char \<Rightarrow> string \<Rightarrow> int" where
  \<comment> \<open>\<open>str.rfind\<close> of one character: the last index, or \<open>-1\<close>\<close>
  "rfind c s = rfind_from c s 0"

fun has_non_dot :: "string \<Rightarrow> bool" where
  "has_non_dot [] = False"
| "has_non_dot (x # xs) = (if x \<noteq> CHR ''.'' then True else has_non_dot xs)"

definition splitext :: "string \<Rightarrow> string \<times> string" where
  \<comment> \<open>\<open>os.path.splitext\<close> (posixpath): the extension starts at the last dot, when that dot
      lies after the last slash and a character other than a dot stands between them\<close>
  "splitext p =
     (let sepIndex = rfind CHR ''/'' p; dotIndex = rfind CHR ''.'' p in
      if dotIndex > sepIndex \<and>
         has_non_dot (take (nat (dotIndex - (sepIndex + 1))) (drop (nat (sepIndex + 1)) p))
      then (take (nat dotIndex) p, drop (nat dotIndex) p)
      else (p, []))"

definition path_join :: "string \<Rightarrow> string \<Rightarrow> string" where
  \<comment> \<open>\<open>os.path.join\<close> (posixpath) of two components\<close>
  "path_join a b =
     (if startswith ''/'' b then b
      else if a = [] \<or> endswith ''/'' a then a @ b
      else a @ ''/'' @ b)"

section \<open>Values, exceptions, the environment and the state\<close>

datatype json =
    JNull
  | JBool bool
  | JInt int
  | JFloat string  \<comment> \<open>a float, kept as its literal\<close>
  | JStr string
  | JArr "json list"
  | JObj "(string \<times> json) list"

fun json_get :: "string \<Rightarrow> json \<Rightarrow> json option" where
  "json_get k (JObj kvs) = map_of kvs k"
| "json_get k _ = None"

datatype exn =
    JSONDecodeError string
  | HTTPException nat string
  | ValueError string
  | AttributeError string
  | UnboundLocalError string
  | FileNotFoundError string
  | RecursionError string
  | UnicodeEncodeError string
  | OtherError string  \<comment> \<open>any other subclass of \<open>Exception\<close>, with its \<open>str\<close>\<close>

record completion_request =
  prompt :: string
  model :: string
  temperature :: string
  max_tokens :: nat

text \<open>
  What the code calls and does not define is a field of the environment:
  \<^item> \<open>chat_completion\<close> is \<open>client.chat.completions.create(...)\<close> followed by
    \<open>.choices[0].message.content\<close>: it raises, or gives the content, which may be \<open>None\<close>;
  \<^item> \<open>json_loads\<close> is \<open>json.loads\<close>: it raises (a \<open>JSONDecodeError\<close>, or another exception
    such as a \<open>RecursionError\<close> on deep nesting), or gives the decoded value;
  \<^item> \<open>pdf_pages\<close> opens a PDF and gives the text of each page, \<open>docx_paragraphs\<close> opens a
    DOCX and gives the text of each paragraph, \<open>read_utf8\<close> is the text-mode read of a file;
  \<^item> \<open>open_wb\<close> is opening a path for writing: \<open>Some e\<close> when it raises \<open>e\<close>;
  \<^item> \<open>http_exception_str\<close> is \<open>str\<close> of an \<open>HTTPException\<close> with a status and a detail;
  \<^item> \<open>print_out\<close> is \<open>print\<close> of a text: \<open>Some e\<close> when it raises \<open>e\<close>, as it does on a text
    that standard output cannot encode;
  \<^item> \<open>render_json\<close> is the rendering, by the web framework, of the body that a handler
    returns: \<open>Some e\<close> when it raises \<open>e\<close>, as it does on a float that is not finite.
\<close>

record env =
  chat_completion :: "completion_request \<Rightarrow> exn + string option"
  json_loads :: "string \<Rightarrow> exn + json"
  pdf_pages :: "bytes \<Rightarrow> exn + string list"
  docx_paragraphs :: "bytes \<Rightarrow> exn + string list"
  read_utf8 :: "bytes \<Rightarrow> exn + string"
  open_wb :: "string \<Rightarrow> exn option"
  http_exception_str :: "nat \<Rightarrow> string \<Rightarrow> string"
  print_out :: "string \<Rightarrow> exn option"
  render_json :: "json \<Rightarrow> exn option"

text \<open>The state: the files on disk and the requests sent to the completion service so far.\<close>

record world =
  files :: "string \<rightharpoonup> bytes"
  sent :: "completion_request list"

fun exn_str :: "env \<Rightarrow> exn \<Rightarrow> string" where
  "exn_str env (JSONDecodeError m) = m"
| "exn_str env (HTTPException code detail) = http_exception_str env code detail"
| "exn_str env (ValueError m) = m"
| "exn_str env (AttributeError m) = m"
| "exn_str env (UnboundLocalError m) = m"
| "exn_str env (FileNotFoundError m) = m"
| "exn_str env (RecursionError m) = m"
| "exn_str env (UnicodeEncodeError m) = m"
| "exn_str env (OtherError m) = m"

datatype http_result =
    Ok200 json  \<comment> \<open>the handler returned a body and the framework rendered it\<close>
  | HTTPError nat string  \<comment> \<open>the handler raised \<open>HTTPException(status_code, detail)\<close>\<close>
  | Unhandled exn  \<comment> \<open>another exception left the handler, or the rendering raised\<close>

definition respond :: "env \<Rightarrow> json \<Rightarrow> http_result" where
  \<comment> \<open>what becomes of the body that a handler returns\<close>
  "respond env body =
     (case render_json env body of
        Some e \<Rightarrow> Unhandled e
      | None \<Rightarrow> Ok200 body)"

definition UPLOAD_DIR :: string where
  "UPLOAD_DIR = ''uploads''"

section \<open>Text extraction\<close>

definition no_such_file :: "string \<Rightarrow> exn" where
  "no_such_file file_path = FileNotFoundError
     (''[Errno 2] No such file or directory: '' @ [CHR 0x27] @ file_path @ [CHR 0x27])"

definition open_rb :: "(string \<rightharpoonup> bytes) \<Rightarrow> string \<Rightarrow> exn + bytes" where
  "open_rb fs file_path =
     (case fs file_path of
        None \<Rightarrow> Inl (no_such_file file_path)
      | Some b \<Rightarrow> Inr b)"

definition extract_text_from_pdf :: "env \<Rightarrow> (string \<rightharpoonup> bytes) \<Rightarrow> string \<Rightarrow> exn + string" where
  "extract_text_from_pdf env fs file_path =
     (case open_rb fs file_path of
        Inl e \<Rightarrow> Inl e
      | Inr b \<Rightarrow> (case pdf_pages env b of
                   Inl e \<Rightarrow> Inl e
                 | Inr pages \<Rightarrow> Inr (foldl (\<lambda>text page. text @ page) [] pages)))"

definition extract_text_from_docx :: "env \<Rightarrow> (string \<rightharpoonup> bytes) \<Rightarrow> string \<Rightarrow> exn + string" where
  "extract_text_from_docx env fs file_path =
     (case open_rb fs file_path of
        Inl e \<Rightarrow> Inl e
      | Inr b \<Rightarrow> (case docx_paragraphs env b of
                   Inl e \<Rightarrow> Inl e
                 | Inr paragraphs \<Rightarrow> Inr (join ''\<newline>'' paragraphs)))"

definition read_text_file :: "env \<Rightarrow> (string \<rightharpoonup> bytes) \<Rightarrow> string \<Rightarrow> exn + string" where
  "read_text_file env fs file_path =
     (case open_rb fs file_path of
        Inl e \<Rightarrow> Inl e
      | Inr b \<Rightarrow> read_utf8 env b)"

definition extract_text_from_file ::
  "env \<Rightarrow> (string \<rightharpoonup> bytes) \<Rightarrow> string \<Rightarrow> string \<Rightarrow> exn + string" where
  "extract_text_from_file env fs file_path filename =
     (if endswith ''.pdf'' filename then extract_text_from_pdf env fs file_path
      else if endswith ''.docx'' filename then extract_text_from_docx env fs file_path
      else if endswith ''.txt'' filename then read_text_file env fs file_path
      else Inl (ValueError ''Unsupported file type''))"

section \<open>Prompts, the remote call and the parsing of its answer\<close>

definition clean_response :: "string \<Rightarrow> string" where
  \<comment> \<open>the statements between the remote call and \<open>json.loads\<close>, the same in the three functions\<close>
  \<open>clean_response response_text =
     (let t1 = strip response_text;
          t2 = (if startswith ''```json'' t1 then drop 7 t1 else t1);
          t3 = (if startswith ''```'' t2 then drop 3 t2 else t2);
          t4 = (if endswith ''```'' t3 then take (length t3 - 3) t3 else t3)
      in strip t4)\<close>

definition remove_suffix :: "string \<Rightarrow> string \<Rightarrow> string" where
  "remove_suffix p s = (if endswith p s then take (length s - length p) s else s)"

definition clean_response_single_marker :: "string \<Rightarrow> string" where
  \<comment> \<open>the clean-up in the specification's words: trim, strip one leading marker (tagged or
      bare), strip one trailing marker, trim\<close>
  \<open>clean_response_single_marker response_text =
     (let t1 = strip response_text;
          t2 = (if startswith ''```json'' t1 then drop 7 t1
                else if startswith ''```'' t1 then drop 3 t1
                else t1)
      in strip (remove_suffix ''```'' t2))\<close>

definition none_strip_message :: string where
  "none_strip_message = [CHR 0x27] @ ''NoneType'' @ [CHR 0x27] @ '' object has no attribute '' @
     [CHR 0x27] @ ''strip'' @ [CHR 0x27]"

definition unbound_response_text_message :: string where
  "unbound_response_text_message = ''cannot access local variable '' @ [CHR 0x27] @
     ''response_text'' @ [CHR 0x27] @ '' where it is not associated with a value''"

definition send :: "env \<Rightarrow> world \<Rightarrow> completion_request \<Rightarrow> world \<times> (exn + string option)" where
  "send env w req = (w\<lparr>sent := sent w @ [req]\<rparr>, chat_completion env req)"

definition parse_content :: "env \<Rightarrow> string option \<Rightarrow> exn + json" where
  \<comment> \<open>\<open>.strip()\<close> on the content, the clean-up and \<open>json.loads\<close>\<close>
  "parse_content env content =
     (case content of
        None \<Rightarrow> Inl (AttributeError none_strip_message)
      | Some response_text \<Rightarrow> json_loads env (clean_response response_text))"

definition response_text_of :: "string option \<Rightarrow> string" where
  \<comment> \<open>what \<open>response_text\<close> holds, as an f-string shows it, once \<open>parse_content\<close> has raised\<close>
  "response_text_of content =
     (case content of
        None \<Rightarrow> ''None''
      | Some response_text \<Rightarrow> clean_response response_text)"

definition print_then :: "env \<Rightarrow> string \<Rightarrow> exn + 'a \<Rightarrow> exn + 'a" where
  \<comment> \<open>\<open>print(text)\<close> and then the rest of the block\<close>
  "print_then env text rest =
     (case print_out env text of
        Some e \<Rightarrow> Inl e
      | None \<Rightarrow> rest)"

definition analysis_prompt :: "string \<Rightarrow> string" where
  \<open>analysis_prompt resume_text =
   ''You are an expert resume reviewer and career coach. Analyze this resume and provide detailed feedback.\<newline>'' @
   ''\<newline>'' @
   ''Resume Content:\<newline>''
   @ resume_text @
   ''\<newline>'' @
   ''\<newline>'' @
   ''Provide your analysis in the following JSON format (respond ONLY with valid JSON, no other text):\<newline>'' @
   ''{\<newline>'' @
   ''    "overall_score": <number between 1-10>,\<newline>'' @
   ''    "strengths": ["<strength 1>", "<strength 2>", "<strength 3>"],\<newline>'' @
   ''    "weaknesses": ["<weakness 1>", "<weakness 2>", "<weakness 3>"],\<newline>'' @
   ''    "suggestions": ["<suggestion 1>", "<suggestion 2>", "<suggestion 3>", "<suggestion 4>", "<suggestion 5>"],\<newline>'' @
   ''    "keywords_missing": ["<keyword 1>", "<keyword 2>", "<keyword 3>"],\<newline>'' @
   ''    "formatting_feedback": "<brief comment on resume formatting and structure>",\<newline>'' @
   ''    "summary": "<2-3 sentence overall assessment>"\<newline>'' @
   ''}\<newline>'' @
   ''\<newline>'' @
   ''Be specific, actionable, and honest in your feedback. Respond with ONLY the JSON object, no markdown formatting.''\<close>

definition analysis_request :: "string \<Rightarrow> completion_request" where
  "analysis_request resume_text =
     \<lparr>prompt = analysis_prompt resume_text, model = ''llama-3.3-70b-versatile'',
      temperature = ''0.7'', max_tokens = 2000\<rparr>"

definition analysis_parse_fallback :: json where
  "analysis_parse_fallback = JObj
     [(''overall_score'', JInt 7),
      (''strengths'', JArr [JStr ''Resume received and processed'']),
      (''weaknesses'', JArr [JStr ''Unable to perform detailed analysis'']),
      (''suggestions'', JArr [JStr ''Please try uploading again'']),
      (''keywords_missing'', JArr []),
      (''formatting_feedback'', JStr ''Standard formatting detected''),
      (''summary'', JStr ''Your resume has been received. Please try the analysis again for detailed feedback.'')]"

definition analysis_error_fallback :: "string \<Rightarrow> json" where
  \<comment> \<open>the argument is \<open>str(e)\<close>\<close>
  "analysis_error_fallback msg = JObj
     [(''overall_score'', JInt 5),
      (''strengths'', JArr [JStr ''Resume uploaded successfully'']),
      (''weaknesses'', JArr [JStr ''Analysis service temporarily unavailable'']),
      (''suggestions'', JArr [JStr ''Please try again in a moment'']),
      (''keywords_missing'', JArr []),
      (''formatting_feedback'', JStr ''Unable to analyze at this time''),
      (''summary'', JStr (''Error occurred: '' @ take 100 msg))]"

fun is_json_decode_error :: "exn \<Rightarrow> bool" where
  "is_json_decode_error (JSONDecodeError m) = True"
| "is_json_decode_error e = False"

definition analysis_handlers :: "env \<Rightarrow> string option \<Rightarrow> exn \<Rightarrow> exn + json" where
  \<comment> \<open>the two \<open>except\<close> clauses of \<open>analyze_resume_with_ai\<close>; the second argument is the text
      bound to \<open>response_text\<close>, \<open>None\<close> while it is unbound\<close>
  "analysis_handlers env response_text e =
     (if is_json_decode_error e
      then print_then env (''JSON parsing error: '' @ exn_str env e)
             (case response_text of
                None \<Rightarrow> Inl (UnboundLocalError unbound_response_text_message)
              | Some t \<Rightarrow> print_then env (''Response was: '' @ t) (Inr analysis_parse_fallback))
      else print_then env (''Error in AI analysis: '' @ exn_str env e)
             (Inr (analysis_error_fallback (exn_str env e))))"

definition analyze_resume_with_ai :: "env \<Rightarrow> world \<Rightarrow> string \<Rightarrow> world \<times> (exn + json)" where
  "analyze_resume_with_ai env w resume_text =
     (case send env w (analysis_request resume_text) of
        (w', Inl e) \<Rightarrow> (w', analysis_handlers env None e)
      | (w', Inr content) \<Rightarrow>
          (case parse_content env content of
             Inl e \<Rightarrow> (w', analysis_handlers env (Some (response_text_of content)) e)
           | Inr analysis \<Rightarrow> (w', Inr analysis)))"

definition questions_prompt :: "string \<Rightarrow> string" where
  \<open>questions_prompt resume_text =
   ''You are an expert interviewer. Based on this resume, generate relevant interview questions.\<newline>'' @
   ''\<newline>'' @
   ''Resume Content:\<newline>''
   @ resume_text @
   ''\<newline>'' @
   ''\<newline>'' @
   ''Generate questions in the following JSON format (respond ONLY with valid JSON, no other text):\<newline>'' @
   ''{\<newline>'' @
   ''    "technical_questions": ["<question 1>", "<question 2>", "<question 3>", "<question 4>", "<question 5>"],\<newline>'' @
   ''    "behavioral_questions": ["<question 1>", "<question 2>", "<question 3>", "<question 4>", "<question 5>"],\<newline>'' @
   ''    "situational_questions": ["<question 1>", "<question 2>", "<question 3>"]\<newline>'' @
   ''}\<newline>'' @
   ''\<newline>'' @
   ''Make questions specific to their actual experience and skills mentioned in the resume. Respond with ONLY the JSON object.''\<close>

definition questions_request :: "string \<Rightarrow> completion_request" where
  "questions_request resume_text =
     \<lparr>prompt = questions_prompt resume_text, model = ''llama-3.3-70b-versatile'',
      temperature = ''0.8'', max_tokens = 2000\<rparr>"

definition questions_fallback :: json where
  "questions_fallback = JObj
     [(''technical_questions'', JArr
        [JStr ''Tell me about your technical skills and experience'',
         JStr ''Describe a challenging technical problem you solved'',
         JStr ''What technologies are you most comfortable with?'',
         JStr ''How do you stay updated with new technologies?'',
         JStr (''Explain a project you'' @ [CHR 0x27] @ ''re proud of'')]),
      (''behavioral_questions'', JArr
        [JStr ''Describe a time you worked on a team project'',
         JStr ''Tell me about a challenge you overcame'',
         JStr ''How do you handle tight deadlines?'',
         JStr ''Describe a time you had to learn something new quickly'',
         JStr ''Tell me about a mistake you made and what you learned'']),
      (''situational_questions'', JArr
        [JStr ''How would you handle conflicting priorities?'',
         JStr ''What would you do if you disagreed with your manager?'',
         JStr ''How would you approach a project with unclear requirements?''])]"

definition questions_handler :: "env \<Rightarrow> exn \<Rightarrow> exn + json" where
  "questions_handler env e =
     print_then env (''Error generating questions: '' @ exn_str env e) (Inr questions_fallback)"

definition generate_interview_questions :: "env \<Rightarrow> world \<Rightarrow> string \<Rightarrow> world \<times> (exn + json)" where
  "generate_interview_questions env w resume_text =
     (case send env w (questions_request resume_text) of
        (w', Inl e) \<Rightarrow> (w', questions_handler env e)
      | (w', Inr content) \<Rightarrow>
          (case parse_content env content of
             Inl e \<Rightarrow> (w', questions_handler env e)
           | Inr questions \<Rightarrow> (w', Inr questions)))"

definition evaluation_prompt :: "string \<Rightarrow> string \<Rightarrow> string" where
  \<open>evaluation_prompt question answer =
   ''You are an expert interviewer evaluating a candidate's answer.\<newline>'' @
   ''\<newline>'' @
   ''Question: ''
   @ question @
   ''\<newline>'' @
   ''Candidate's Answer: ''
   @ answer @
   ''\<newline>'' @
   ''\<newline>'' @
   ''Evaluate the answer and provide feedback in JSON format (respond ONLY with valid JSON):\<newline>'' @
   ''{\<newline>'' @
   ''    "score": <number between 1-10>,\<newline>'' @
   ''    "feedback": "<detailed feedback on the answer>",\<newline>'' @
   ''    "suggestions": ["<suggestion 1>", "<suggestion 2>"],\<newline>'' @
   ''    "strong_points": ["<strong point 1>", "<strong point 2>"]\<newline>'' @
   ''}\<newline>'' @
   ''\<newline>'' @
   ''Respond with ONLY the JSON object.''\<close>

definition evaluation_request :: "string \<Rightarrow> string \<Rightarrow> completion_request" where
  "evaluation_request question answer =
     \<lparr>prompt = evaluation_prompt question answer, model = ''llama-3.3-70b-versatile'',
      temperature = ''0.7'', max_tokens = 1500\<rparr>"

definition evaluation_fallback :: json where
  "evaluation_fallback = JObj
     [(''score'', JInt 6),
      (''feedback'', JStr ''Thank you for your answer. Try to provide more specific examples and details.''),
      (''suggestions'', JArr
        [JStr ''Include concrete examples from your experience'',
         JStr ''Structure your answer with a clear beginning, middle, and end'']),
      (''strong_points'', JArr [JStr ''You provided a response to the question''])]"

definition evaluation_handler :: "env \<Rightarrow> exn \<Rightarrow> exn + json" where
  "evaluation_handler env e =
     print_then env (''Error evaluating answer: '' @ exn_str env e) (Inr evaluation_fallback)"

definition evaluate_answer :: "env \<Rightarrow> world \<Rightarrow> string \<Rightarrow> string \<Rightarrow> world \<times> (exn + json)" where
  "evaluate_answer env w question answer =
     (case send env w (evaluation_request question answer) of
        (w', Inl e) \<Rightarrow> (w', evaluation_handler env e)
      | (w', Inr content) \<Rightarrow>
          (case parse_content env content of
             Inl e \<Rightarrow> (w', evaluation_handler env e)
           | Inr evaluation \<Rightarrow> (w', Inr evaluation)))"

section \<open>The endpoints\<close>

record upload_file =
  filename :: string
  content :: bytes

record answer_evaluation =
  question :: string
  answer :: string

definition allowed_extensions :: "string list" where
  "allowed_extensions = [''.pdf'', ''.docx'', ''.txt'']"

definition remove_if_exists :: "world \<Rightarrow> string \<Rightarrow> world" where
  \<comment> \<open>the \<open>finally\<close> block of the two upload endpoints\<close>
  "remove_if_exists w file_path =
     (if file_path \<in> dom (files w) then w\<lparr>files := (files w)(file_path := None)\<rparr> else w)"

definition success_envelope :: "string \<Rightarrow> json \<Rightarrow> string \<Rightarrow> json" where
  "success_envelope name analysis resume_text = JObj
     [(''success'', JBool True),
      (''filename'', JStr name),
      (''analysis'', analysis),
      (''resume_text'', JStr (take 500 resume_text @ ''...''))]"

definition upload_resume_try :: "env \<Rightarrow> world \<Rightarrow> string \<Rightarrow> string \<Rightarrow> world \<times> (exn + json)" where
  \<comment> \<open>the body of the \<open>try\<close> of \<open>upload_resume\<close>\<close>
  "upload_resume_try env w file_path name =
     (case extract_text_from_file env (files w) file_path name of
        Inl e \<Rightarrow> (w, Inl e)
      | Inr resume_text \<Rightarrow>
          if length (strip resume_text) < 50
          then (w, Inl (HTTPException 400 ''Resume appears to be empty or too short''))
          else (case analyze_resume_with_ai env w resume_text of
                  (w', Inl e) \<Rightarrow> (w', Inl e)
                | (w', Inr analysis) \<Rightarrow> (w', Inr (success_envelope name analysis resume_text))))"

definition upload_resume :: "env \<Rightarrow> world \<Rightarrow> upload_file \<Rightarrow> world \<times> http_result" where
  "upload_resume env w file =
     (let file_ext = lower (snd (splitext (filename file))) in
      if file_ext \<notin> set allowed_extensions
      then (w, HTTPError 400
                 (''File type not supported. Please upload '' @ join '', '' allowed_extensions))
      else
        let file_path = path_join UPLOAD_DIR (filename file) in
        case open_wb env file_path of
          Some e \<Rightarrow> (w, Unhandled e)
        | None \<Rightarrow>
            (case upload_resume_try env (w\<lparr>files := (files w)(file_path \<mapsto> content file)\<rparr>)
                    file_path (filename file) of
               (w', Inl e) \<Rightarrow>
                 (remove_if_exists w' file_path,
                  HTTPError 500 (''Error processing resume: '' @ exn_str env e))
             | (w', Inr body) \<Rightarrow> (remove_if_exists w' file_path, respond env body)))"

definition generate_questions_try :: "env \<Rightarrow> world \<Rightarrow> string \<Rightarrow> string \<Rightarrow> world \<times> (exn + json)" where
  \<comment> \<open>the body of the \<open>try\<close> of \<open>generate_questions\<close>\<close>
  "generate_questions_try env w file_path name =
     (case extract_text_from_file env (files w) file_path name of
        Inl e \<Rightarrow> (w, Inl e)
      | Inr resume_text \<Rightarrow>
          (case generate_interview_questions env w resume_text of
             (w', Inl e) \<Rightarrow> (w', Inl e)
           | (w', Inr questions) \<Rightarrow>
               (w', Inr (JObj [(''success'', JBool True), (''questions'', questions)]))))"

definition generate_questions :: "env \<Rightarrow> world \<Rightarrow> upload_file \<Rightarrow> world \<times> http_result" where
  "generate_questions env w file =
     (let file_path = path_join UPLOAD_DIR (filename file) in
      case open_wb env file_path of
        Some e \<Rightarrow> (w, Unhandled e)
      | None \<Rightarrow>
          (case generate_questions_try env (w\<lparr>files := (files w)(file_path \<mapsto> content file)\<rparr>)
                  file_path (filename file) of
             (w', Inl e) \<Rightarrow>
               (remove_if_exists w' file_path,
                HTTPError 500 (''Error generating questions: '' @ exn_str env e))
           | (w', Inr body) \<Rightarrow> (remove_if_exists w' file_path, respond env body)))"

definition evaluate_answer_endpoint :: "env \<Rightarrow> world \<Rightarrow> answer_evaluation \<Rightarrow> world \<times> http_result" where
  "evaluate_answer_endpoint env w data =
     (case evaluate_answer env w (question data) (answer data) of
        (w', Inl e) \<Rightarrow> (w', HTTPError 500 (''Error evaluating answer: '' @ exn_str env e))
      | (w', Inr evaluation) \<Rightarrow>
          (w', respond env (JObj [(''success'', JBool True), (''evaluation'', evaluation)])))"

section \<open>Reading a fallback object\<close>

fun contains :: "string \<Rightarrow> string \<Rightarrow> bool" where
  \<comment> \<open>\<open>contains sub s\<close> is Python's \<open>sub in s\<close>\<close>
  "contains sub [] = (sub = [])"
| "contains sub (x # xs) = (startswith sub (x # xs) \<or> contains sub xs)"

fun json_texts :: "json \<Rightarrow> string list" where
  \<comment> \<open>every string value inside a JSON value\<close>
  "json_texts (JStr s) = [s]"
| "json_texts (JArr xs) = concat (map json_texts xs)"
| "json_texts (JObj kvs) = concat (map (\<lambda>kv. json_texts (snd kv)) kvs)"
| "json_texts _ = []"

section \<open>Example environments and inputs\<close>

definition example_text :: string where
  "example_text = ''Jane Doe, software engineer with ten years of experience in backend systems.''"

definition fenced_answer :: string where
  \<open>fenced_answer = ''```json\<newline>{"a":1}\<newline>```''\<close>

definition expecting_value :: exn where
  "expecting_value = JSONDecodeError ''Expecting value: line 1 column 1 (char 0)''"

definition example_env :: env where
  \<comment> \<open>the service answers with a fenced document; the decoder knows that one document\<close>
  \<open>example_env =
     \<lparr>chat_completion = (\<lambda>req. Inr (Some fenced_answer)),
      json_loads = (\<lambda>s. if s = ''{"a":1}'' then Inr (JObj [(''a'', JInt 1)])
                         else Inl expecting_value),
      pdf_pages = (\<lambda>b. Inr [''page one, '', ''page two'']),
      docx_paragraphs = (\<lambda>b. Inr [''first paragraph'', ''second paragraph'']),
      read_utf8 = (\<lambda>b. Inr b),
      open_wb = (\<lambda>p. None),
      http_exception_str = (\<lambda>code detail. (if code = 400 then ''400'' else ''500'') @ '': '' @ detail),
      print_out = (\<lambda>text. None),
      render_json = (\<lambda>body. None)\<rparr>\<close>

definition failing_env :: env where
  \<comment> \<open>the remote call raises\<close>
  "failing_env = example_env\<lparr>chat_completion := (\<lambda>req. Inl (OtherError ''Connection error.''))\<rparr>"

definition garbled_env :: env where
  \<comment> \<open>the remote call answers with text that is not JSON\<close>
  "garbled_env = example_env\<lparr>chat_completion := (\<lambda>req. Inr (Some ''Sorry, I cannot do that.''))\<rparr>"

definition deep_answer :: string where
  "deep_answer = replicate 1000 CHR ''[''"

definition recursion_depth :: exn where
  "recursion_depth = RecursionError
     ''maximum recursion depth exceeded while decoding a JSON array from a unicode string''"

definition deep_env :: env where
  \<comment> \<open>the remote call answers with a thousand opening brackets, on which the decoder
      exhausts the recursion limit\<close>
  "deep_env = example_env
     \<lparr>chat_completion := (\<lambda>req. Inr (Some deep_answer)),
      json_loads := (\<lambda>s. if s = deep_answer then Inl recursion_depth else Inl expecting_value)\<rparr>"

definition refused_message :: string where
  "refused_message = ''Connexion refus'' @ [CHR 0xE9] @ ''e''"

definition cannot_encode :: exn where
  "cannot_encode = UnicodeEncodeError
     ([CHR 0x27] @ ''ascii'' @ [CHR 0x27] @ '' codec can'' @ [CHR 0x27] @ ''t encode character '' @
      [CHR 0x27, CHR 0x5C] @ ''xe9'' @ [CHR 0x27] @ '' in position 40: ordinal not in range(128)'')"

definition ascii_console_env :: env where
  \<comment> \<open>the remote call raises with a text that holds an accented letter, and standard output
      encodes ASCII only\<close>
  "ascii_console_env = example_env
     \<lparr>chat_completion := (\<lambda>req. Inl (OtherError refused_message)),
      print_out := (\<lambda>text. if CHR 0xE9 \<in> set text then Some cannot_encode else None)\<rparr>"

definition flat_uploads_env :: env where
  \<comment> \<open>the upload directory has no subdirectory: a path below one cannot be opened\<close>
  "flat_uploads_env = example_env
     \<lparr>open_wb := (\<lambda>p. if CHR ''/'' \<in> set (drop 8 p) then Some (no_such_file p) else None)\<rparr>"

definition empty_world :: world where
  "empty_world = \<lparr>files = Map.empty, sent = []\<rparr>"

definition example_upload :: upload_file where
  "example_upload = \<lparr>filename = ''cv.txt'', content = example_text\<rparr>"

definition short_upload :: upload_file where
  "short_upload = \<lparr>filename = ''cv.txt'', content = ''0123456789''\<rparr>"

definition long_upload :: upload_file where
  "long_upload = \<lparr>filename = ''cv.txt'', content = replicate 600 CHR ''a''\<rparr>"

section \<open>Facts about strings and paths\<close>

lemmas str_defs = strip_def lstrip_def rstrip_def isspace_def startswith_def endswith_def

lemmas example_defs = example_env_def failing_env_def garbled_env_def deep_env_def
  ascii_console_env_def flat_uploads_env_def empty_world_def example_upload_def short_upload_def
  long_upload_def expecting_value_def recursion_depth_def

lemma endswith_last: "endswith p s \<Longrightarrow> p \<noteq> [] \<Longrightarrow> last s = last p"
  unfolding endswith_def by (metis last_drop drop_eq_Nil2 linorder_not_less)






lemma startswith_iff: "startswith p t \<longleftrightarrow> (\<exists>r. t = p @ r)"
  unfolding startswith_def by (metis append_eq_conv_conj append_take_drop_id)

lemma startswith_append:
  "startswith (p @ q) t \<longleftrightarrow> startswith p t \<and> startswith q (drop (length p) t)"
  by (auto simp: startswith_iff)

lemma startswith_tag_and_marker:
  \<open>startswith ''```json```'' t \<longleftrightarrow> startswith ''```json'' t \<and> startswith ''```'' (drop 7 t)\<close>
proof -
  have l: \<open>length ''```json'' = 7\<close> by simp
  have a: \<open>''```json```'' = ''```json'' @ ''```''\<close> by simp
  show ?thesis by (simp only: a startswith_append l)
qed

lemma remove_suffix_marker:
  \<open>remove_suffix ''```'' s = (if endswith ''```'' s then take (length s - 3) s else s)\<close>
  by (simp add: remove_suffix_def numeral_3_eq_3)

lemma strip_replicate: "\<not> isspace c \<Longrightarrow> strip (replicate n c) = replicate n c"
  by (simp add: strip_def lstrip_def rstrip_def dropWhile_replicate)

lemma startswith_replicate:
  "p \<noteq> [] \<Longrightarrow> hd p \<noteq> c \<Longrightarrow> \<not> startswith p (replicate n c)"
  by (cases p; cases n) (auto simp: startswith_def)

lemma endswith_replicate:
  "p \<noteq> [] \<Longrightarrow> last p \<noteq> c \<Longrightarrow> \<not> endswith p (replicate n c)"
proof
  assume p: "p \<noteq> []" "last p \<noteq> c" and e: "endswith p (replicate n c)"
  then have "last (replicate n c) = last p" by (simp add: endswith_last)
  moreover have "replicate n c \<noteq> []" using e p by (cases n) (auto simp: endswith_def)
  ultimately show False using p by simp
qed

lemma clean_response_deep_answer: "clean_response deep_answer = deep_answer"
proof -
  have s: "strip deep_answer = deep_answer"
    unfolding deep_answer_def by (rule strip_replicate) (simp add: isspace_def)
  have a: \<open>\<not> startswith ''```json'' deep_answer\<close> \<open>\<not> startswith ''```'' deep_answer\<close>
    unfolding deep_answer_def by (rule startswith_replicate; simp)+
  have b: \<open>\<not> endswith ''```'' deep_answer\<close>
    unfolding deep_answer_def by (rule endswith_replicate; simp)
  show ?thesis by (simp add: clean_response_def s a b)
qed

section \<open>What the helpers do to the state\<close>

lemma analyze_world:
  "analyze_resume_with_ai env w t = (w', r) \<Longrightarrow> w' = w\<lparr>sent := sent w @ [analysis_request t]\<rparr>"
  by (auto simp: analyze_resume_with_ai_def send_def split: sum.splits)

lemma questions_world:
  "generate_interview_questions env w t = (w', r) \<Longrightarrow> w' = w\<lparr>sent := sent w @ [questions_request t]\<rparr>"
  by (auto simp: generate_interview_questions_def send_def split: sum.splits)

lemma files_upload_resume_try:
  "upload_resume_try env w p n = (w', r) \<Longrightarrow> files w' = files w"
  by (auto simp: upload_resume_try_def split: sum.splits prod.splits if_splits dest: analyze_world)

lemma files_generate_questions_try:
  "generate_questions_try env w p n = (w', r) \<Longrightarrow> files w' = files w"
  by (auto simp: generate_questions_try_def split: sum.splits prod.splits dest: questions_world)

lemma files_remove_if_exists: "files (remove_if_exists w p) = (files w)(p := None)"
  by (auto simp: remove_if_exists_def)

section \<open>The upload pipeline\<close>

text \<open>
  An upload that passes the extension check, is written, and yields a text of at least 50
  characters after trimming is analysed once; the scratch file is gone afterwards.
\<close>

lemma upload_resume_accepted:
  assumes "lower (snd (splitext (filename file))) \<in> set allowed_extensions"
      and "open_wb env (path_join UPLOAD_DIR (filename file)) = None"
      and "extract_text_from_file env ((files w)(path_join UPLOAD_DIR (filename file) \<mapsto> content file))
             (path_join UPLOAD_DIR (filename file)) (filename file) = Inr text"
      and "50 \<le> length (strip text)"
      and "snd (analyze_resume_with_ai env
             (w\<lparr>files := (files w)(path_join UPLOAD_DIR (filename file) \<mapsto> content file)\<rparr>) text) = r"
  shows "upload_resume env w file =
           (w\<lparr>files := (files w)(path_join UPLOAD_DIR (filename file) := None),
               sent := sent w @ [analysis_request text]\<rparr>,
            case r of
              Inl e \<Rightarrow> HTTPError 500 (''Error processing resume: '' @ exn_str env e)
            | Inr analysis \<Rightarrow> respond env (success_envelope (filename file) analysis text))"
proof -
  let ?p = "path_join UPLOAD_DIR (filename file)"
  let ?w1 = "w\<lparr>files := (files w)(?p \<mapsto> content file)\<rparr>"
  obtain w' where a: "analyze_resume_with_ai env ?w1 text = (w', r)"
    using assms(5) by (cases "analyze_resume_with_ai env ?w1 text") auto
  then have w': "w' = ?w1\<lparr>sent := sent ?w1 @ [analysis_request text]\<rparr>"
    by (rule analyze_world)
  have "upload_resume_try env ?w1 ?p (filename file) =
          (w', case r of Inl e \<Rightarrow> Inl e
                | Inr analysis \<Rightarrow> Inr (success_envelope (filename file) analysis text))"
    using assms(3,4) a by (simp add: upload_resume_try_def split: sum.splits)
  then show ?thesis
    using assms(1,2) by (simp add: upload_resume_def Let_def remove_if_exists_def w' split: sum.splits)
qed

lemma upload_resume_short_text:
  assumes "lower (snd (splitext (filename file))) \<in> set allowed_extensions"
      and "open_wb env (path_join UPLOAD_DIR (filename file)) = None"
      and "extract_text_from_file env ((files w)(path_join UPLOAD_DIR (filename file) \<mapsto> content file))
             (path_join UPLOAD_DIR (filename file)) (filename file) = Inr text"
      and "length (strip text) < 50"
  shows "upload_resume env w file =
           (w\<lparr>files := (files w)(path_join UPLOAD_DIR (filename file) := None)\<rparr>,
            HTTPError 500 (''Error processing resume: '' @
              http_exception_str env 400 ''Resume appears to be empty or too short''))"
proof -
  let ?p = "path_join UPLOAD_DIR (filename file)"
  let ?w1 = "w\<lparr>files := (files w)(?p \<mapsto> content file)\<rparr>"
  have "upload_resume_try env ?w1 ?p (filename file) =
          (?w1, Inl (HTTPException 400 ''Resume appears to be empty or too short''))"
    using assms(3,4) by (simp add: upload_resume_try_def)
  then show ?thesis
    using assms(1,2) by (simp add: upload_resume_def Let_def remove_if_exists_def)
qed

lemma analyze_remote_error:
  assumes "chat_completion env (analysis_request text) = Inl e" and "\<not> is_json_decode_error e"
  shows "snd (analyze_resume_with_ai env w text) =
           print_then env (''Error in AI analysis: '' @ exn_str env e)
             (Inr (analysis_error_fallback (exn_str env e)))"
  using assms by (simp add: analyze_resume_with_ai_def send_def analysis_handlers_def)

lemma analyze_malformed:
  assumes "chat_completion env (analysis_request text) = Inr (Some raw)"
      and "json_loads env (clean_response raw) = Inl e" and "is_json_decode_error e"
      and "print_out env (''JSON parsing error: '' @ exn_str env e) = None"
      and "print_out env (''Response was: '' @ clean_response raw) = None"
  shows "snd (analyze_resume_with_ai env w text) = Inr analysis_parse_fallback"
  using assms
  by (simp add: analyze_resume_with_ai_def send_def analysis_handlers_def parse_content_def
      response_text_of_def print_then_def)

lemma analyze_decode_error:
  assumes "chat_completion env (analysis_request text) = Inr (Some raw)"
      and "json_loads env (clean_response raw) = Inl e" and "\<not> is_json_decode_error e"
  shows "snd (analyze_resume_with_ai env w text) =
           print_then env (''Error in AI analysis: '' @ exn_str env e)
             (Inr (analysis_error_fallback (exn_str env e)))"
  using assms
  by (simp add: analyze_resume_with_ai_def send_def analysis_handlers_def parse_content_def)

lemma analyze_decoded:
  assumes "chat_completion env (analysis_request text) = Inr (Some raw)"
      and "json_loads env (clean_response raw) = Inr analysis"
  shows "snd (analyze_resume_with_ai env w text) = Inr analysis"
  using assms by (simp add: analyze_resume_with_ai_def send_def parse_content_def)

lemma clean_response_fenced_answer: \<open>clean_response fenced_answer = ''{"a":1}''\<close>
  by (simp add: fenced_answer_def clean_response_def str_defs)

lemma example_extract:
  "extract_text_from_file env' ((files w)(path_join UPLOAD_DIR ''cv.txt'' \<mapsto> c)) (path_join UPLOAD_DIR ''cv.txt'') ''cv.txt''
     = read_utf8 env' c"
  by (simp add: extract_text_from_file_def read_text_file_def open_rb_def endswith_def)

lemma example_ext: "lower (snd (splitext ''cv.txt'')) \<in> set allowed_extensions"
  by (simp add: splitext_def rfind_def Let_def lower_def lower_char_def upper_letters_def lower_letters_def allowed_extensions_def)

lemma example_text_long: "50 \<le> length (strip example_text)"
  by (simp add: example_text_def str_defs)

section \<open>The claims\<close>

text \<open>
  Claim C1. For every uploaded file whose extracted text, after trimming, is shorter than 50
  characters, the upload-resume endpoint returns HTTP 400 and does not call the completion
  service. The code raises the 400 inside the \<open>try\<close> whose \<open>except Exception\<close> clause
  catches it and raises a 500 in its place: a ten-character \<open>.txt\<close> upload is answered with
  status 500, and no request is sent.
\<close>

theorem short_upload_status:
  "upload_resume example_env empty_world short_upload =
     (empty_world,
      HTTPError 500 ''Error processing resume: 400: Resume appears to be empty or too short'')"
  using upload_resume_short_text [of short_upload example_env empty_world "''0123456789''"]
    example_ext example_extract [of example_env empty_world "''0123456789''"]
  by (simp add: example_defs str_defs)

text \<open>
  Claim C2, as stated: when the remote call raises any error, or the text is not valid JSON,
  the endpoint returns HTTP 200 with the fallback whose \<open>overall_score\<close> is 7. When the
  remote call raises, the fallback of the second handler is returned, and its score is 5.
\<close>

theorem remote_failure_score_counterexample:
  "snd (upload_resume failing_env empty_world example_upload) =
     Ok200 (success_envelope ''cv.txt'' (analysis_error_fallback ''Connection error.'') example_text) \<and>
   json_get ''overall_score'' (analysis_error_fallback ''Connection error.'') = Some (JInt 5) \<and>
   json_get ''overall_score'' (analysis_error_fallback ''Connection error.'') \<noteq> Some (JInt 7)"
proof -
  have "snd (analyze_resume_with_ai failing_env w example_text) =
          Inr (analysis_error_fallback ''Connection error.'')" for w
    using analyze_remote_error [of failing_env example_text "OtherError ''Connection error.''" w]
    by (simp add: example_defs print_then_def)
  then have "snd (upload_resume failing_env empty_world example_upload) =
     Ok200 (success_envelope ''cv.txt'' (analysis_error_fallback ''Connection error.'') example_text)"
    using upload_resume_accepted [of example_upload failing_env empty_world example_text
        "Inr (analysis_error_fallback ''Connection error.'')"] example_ext example_text_long
      example_extract [of failing_env empty_world example_text]
    by (simp add: example_defs respond_def)
  then show ?thesis by (simp add: analysis_error_fallback_def)
qed

text \<open>
  Claim C2, amended. For an upload that reaches the analysis, and as long as the prints of
  the handler complete and the framework renders the body: when decoding the returned text
  raises a JSON decode error the endpoint returns HTTP 200 with the fixed fallback whose
  \<open>overall_score\<close> is 7; when the remote call raises an error that is not a JSON decode
  error, or decoding the returned text raises one (a recursion error on deeply nested text,
  for one), it returns HTTP 200 with the other fallback, whose \<open>overall_score\<close> is 5.
\<close>

theorem upload_resume_fallbacks:
  assumes "lower (snd (splitext (filename file))) \<in> set allowed_extensions"
      and "open_wb env (path_join UPLOAD_DIR (filename file)) = None"
      and "extract_text_from_file env ((files w)(path_join UPLOAD_DIR (filename file) \<mapsto> content file))
             (path_join UPLOAD_DIR (filename file)) (filename file) = Inr text"
      and "50 \<le> length (strip text)"
  shows "(chat_completion env (analysis_request text) = Inr (Some raw) \<and>
          json_loads env (clean_response raw) = Inl d \<and> is_json_decode_error d \<and>
          print_out env (''JSON parsing error: '' @ exn_str env d) = None \<and>
          print_out env (''Response was: '' @ clean_response raw) = None \<and>
          render_json env (success_envelope (filename file) analysis_parse_fallback text) = None \<longrightarrow>
            snd (upload_resume env w file) =
              Ok200 (success_envelope (filename file) analysis_parse_fallback text)) \<and>
         (chat_completion env (analysis_request text) = Inl e \<and> \<not> is_json_decode_error e \<and>
          print_out env (''Error in AI analysis: '' @ exn_str env e) = None \<and>
          render_json env
            (success_envelope (filename file) (analysis_error_fallback (exn_str env e)) text) = None \<longrightarrow>
            snd (upload_resume env w file) =
              Ok200 (success_envelope (filename file) (analysis_error_fallback (exn_str env e)) text)) \<and>
         (chat_completion env (analysis_request text) = Inr (Some raw) \<and>
          json_loads env (clean_response raw) = Inl e \<and> \<not> is_json_decode_error e \<and>
          print_out env (''Error in AI analysis: '' @ exn_str env e) = None \<and>
          render_json env
            (success_envelope (filename file) (analysis_error_fallback (exn_str env e)) text) = None \<longrightarrow>
            snd (upload_resume env w file) =
              Ok200 (success_envelope (filename file) (analysis_error_fallback (exn_str env e)) text)) \<and>
         json_get ''overall_score'' analysis_parse_fallback = Some (JInt 7) \<and>
         json_get ''overall_score'' (analysis_error_fallback (exn_str env e)) = Some (JInt 5)"
proof (intro conjI impI)
  let ?w1 = "w\<lparr>files := (files w)(path_join UPLOAD_DIR (filename file) \<mapsto> content file)\<rparr>"
  assume h: "chat_completion env (analysis_request text) = Inr (Some raw) \<and>
          json_loads env (clean_response raw) = Inl d \<and> is_json_decode_error d \<and>
          print_out env (''JSON parsing error: '' @ exn_str env d) = None \<and>
          print_out env (''Response was: '' @ clean_response raw) = None \<and>
          render_json env (success_envelope (filename file) analysis_parse_fallback text) = None"
  then have "snd (analyze_resume_with_ai env ?w1 text) = Inr analysis_parse_fallback"
    by (simp add: analyze_malformed)
  from upload_resume_accepted [OF assms this] h
  show "snd (upload_resume env w file) =
              Ok200 (success_envelope (filename file) analysis_parse_fallback text)"
    by (simp add: respond_def)
next
  let ?w1 = "w\<lparr>files := (files w)(path_join UPLOAD_DIR (filename file) \<mapsto> content file)\<rparr>"
  assume h: "chat_completion env (analysis_request text) = Inl e \<and> \<not> is_json_decode_error e \<and>
          print_out env (''Error in AI analysis: '' @ exn_str env e) = None \<and>
          render_json env
            (success_envelope (filename file) (analysis_error_fallback (exn_str env e)) text) = None"
  then have "snd (analyze_resume_with_ai env ?w1 text) =
      Inr (analysis_error_fallback (exn_str env e))"
    by (simp add: analyze_remote_error print_then_def)
  from upload_resume_accepted [OF assms this] h
  show "snd (upload_resume env w file) =
              Ok200 (success_envelope (filename file) (analysis_error_fallback (exn_str env e)) text)"
    by (simp add: respond_def)
next
  let ?w1 = "w\<lparr>files := (files w)(path_join UPLOAD_DIR (filename file) \<mapsto> content file)\<rparr>"
  assume h: "chat_completion env (analysis_request text) = Inr (Some raw) \<and>
          json_loads env (clean_response raw) = Inl e \<and> \<not> is_json_decode_error e \<and>
          print_out env (''Error in AI analysis: '' @ exn_str env e) = None \<and>
          render_json env
            (success_envelope (filename file) (analysis_error_fallback (exn_str env e)) text) = None"
  then have "snd (analyze_resume_with_ai env ?w1 text) =
      Inr (analysis_error_fallback (exn_str env e))"
    by (simp add: analyze_decode_error print_then_def)
  from upload_resume_accepted [OF assms this] h
  show "snd (upload_resume env w file) =
              Ok200 (success_envelope (filename file) (analysis_error_fallback (exn_str env e)) text)"
    by (simp add: respond_def)
next
  show "json_get ''overall_score'' analysis_parse_fallback = Some (JInt 7)"
    by (simp add: analysis_parse_fallback_def)
next
  show "json_get ''overall_score'' (analysis_error_fallback (exn_str env e)) = Some (JInt 5)"
    by (simp add: analysis_error_fallback_def)
qed

theorem upload_resume_fallbacks_witness:
  "snd (upload_resume garbled_env empty_world example_upload) =
     Ok200 (success_envelope ''cv.txt'' analysis_parse_fallback example_text) \<and>
   snd (upload_resume failing_env empty_world example_upload) =
     Ok200 (success_envelope ''cv.txt'' (analysis_error_fallback ''Connection error.'') example_text) \<and>
   snd (upload_resume deep_env empty_world example_upload) =
     Ok200 (success_envelope ''cv.txt'' (analysis_error_fallback (exn_str deep_env recursion_depth))
       example_text)"
proof -
  have g: "json_loads garbled_env (clean_response ''Sorry, I cannot do that.'') = Inl expecting_value"
    by (simp add: example_env_def garbled_env_def clean_response_def str_defs)
  have d: "json_loads deep_env (clean_response deep_answer) = Inl recursion_depth"
    by (simp add: clean_response_deep_answer deep_env_def)
  have 1: "snd (upload_resume garbled_env empty_world example_upload) =
     Ok200 (success_envelope ''cv.txt'' analysis_parse_fallback example_text)"
    using upload_resume_fallbacks [of example_upload garbled_env empty_world example_text
        "''Sorry, I cannot do that.''" expecting_value "OtherError ''unused''"]
      g example_ext example_text_long example_extract [of garbled_env empty_world example_text]
    by (simp add: example_defs)
  have 2: "snd (upload_resume failing_env empty_world example_upload) =
     Ok200 (success_envelope ''cv.txt'' (analysis_error_fallback ''Connection error.'') example_text)"
    using upload_resume_fallbacks [of example_upload failing_env empty_world example_text
        "''unused''" expecting_value "OtherError ''Connection error.''"]
      example_ext example_text_long example_extract [of failing_env empty_world example_text]
    by (simp add: example_defs)
  have 3: "snd (upload_resume deep_env empty_world example_upload) =
     Ok200 (success_envelope ''cv.txt'' (analysis_error_fallback (exn_str deep_env recursion_depth))
       example_text)"
    using upload_resume_fallbacks [of example_upload deep_env empty_world example_text
        deep_answer expecting_value recursion_depth]
      d example_ext example_text_long example_extract [of deep_env empty_world example_text]
    by (simp add: example_defs)
  from 1 2 3 show ?thesis by simp
qed

text \<open>
  Claim C3, as stated: on the remote-call-failed path the fallback of the answer-evaluation
  variant embeds the error text in its summary. That fallback is one fixed object: it has no
  summary, and the error text occurs nowhere in it.
\<close>

theorem evaluation_fallback_counterexample:
  "snd (evaluate_answer failing_env empty_world ''Why Go?'' ''Because I like it.'') =
     Inr evaluation_fallback \<and>
   json_get ''summary'' evaluation_fallback = None \<and>
   \<not> list_ex (contains ''Connection error.'') (json_texts evaluation_fallback)"
  by (simp add: evaluate_answer_def evaluation_handler_def print_then_def send_def example_defs
      evaluation_fallback_def startswith_def)

text \<open>
  Claim C3, amended. On the remote-call-failed path it is the resume-analysis variant whose
  fallback carries the first 100 characters of the error text, after \<open>Error occurred: \<close>, in
  its summary; the answer-evaluation variant returns its fixed fallback whatever the error.
  Each handler prints the error first, and returns its fallback once that print completes.
\<close>

theorem generic_failure_fallbacks:
  "(chat_completion env (analysis_request text) = Inl e \<and> \<not> is_json_decode_error e \<longrightarrow>
      snd (analyze_resume_with_ai env w text) =
        print_then env (''Error in AI analysis: '' @ exn_str env e)
          (Inr (analysis_error_fallback (exn_str env e))) \<and>
      json_get ''summary'' (analysis_error_fallback (exn_str env e)) =
        Some (JStr (''Error occurred: '' @ take 100 (exn_str env e)))) \<and>
   (chat_completion env (evaluation_request q a) = Inl e' \<longrightarrow>
      snd (evaluate_answer env w q a) =
        print_then env (''Error evaluating answer: '' @ exn_str env e') (Inr evaluation_fallback))"
  by (simp add: analyze_remote_error analysis_error_fallback_def evaluate_answer_def
      evaluation_handler_def send_def)

theorem generic_failure_fallbacks_witness:
  "snd (analyze_resume_with_ai failing_env empty_world example_text) =
     Inr (analysis_error_fallback ''Connection error.'') \<and>
   json_get ''summary'' (analysis_error_fallback ''Connection error.'') =
     Some (JStr ''Error occurred: Connection error.'') \<and>
   snd (evaluate_answer failing_env empty_world ''Why Go?'' ''Because I like it.'') =
     Inr evaluation_fallback"
  using generic_failure_fallbacks [of failing_env example_text "OtherError ''Connection error.''"
      empty_world "''Why Go?''" "''Because I like it.''" "OtherError ''Connection error.''"]
  by (simp add: example_defs print_then_def)

text \<open>
  Claim C4, as stated: the parser strips a single leading marker, tagged or bare. On a
  text that begins with a tagged marker followed at once by a bare one, the code strips both,
  and what it hands to the decoder differs from what stripping one marker leaves.
\<close>

theorem double_marker_counterexample:
  \<open>clean_response ''```json```{"a":1}```'' = ''{"a":1}'' \<and>
   clean_response_single_marker ''```json```{"a":1}```'' = ''```{"a":1}''\<close>
  by (simp add: clean_response_def clean_response_single_marker_def remove_suffix_def str_defs)

text \<open>
  Claim C4, amended. For every raw response the parser trims whitespace, strips a leading
  tagged marker if present and then a leading bare marker if the rest begins with one, strips
  one trailing marker, trims again and decodes the remainder: the result is that of stripping
  a single leading marker, except on texts that begin with a tagged marker followed at once
  by a bare one, which lose both. In particular the fenced answer is cleaned to the document
  between the markers, and decodes to what the decoder gives for that document.
\<close>

theorem clean_response_markers:
  \<open>clean_response raw =
     (if startswith ''```json```'' (strip raw)
      then strip (remove_suffix ''```'' (drop 10 (strip raw)))
      else clean_response_single_marker raw) \<and>
   clean_response fenced_answer = ''{"a":1}'' \<and>
   (json_loads env ''{"a":1}'' = Inr v \<longrightarrow> parse_content env (Some fenced_answer) = Inr v)\<close>
proof (intro conjI impI)
  show \<open>clean_response raw =
     (if startswith ''```json```'' (strip raw)
      then strip (remove_suffix ''```'' (drop 10 (strip raw)))
      else clean_response_single_marker raw)\<close>
    by (simp add: clean_response_def clean_response_single_marker_def remove_suffix_marker Let_def
        startswith_tag_and_marker)
next
  show c: \<open>clean_response fenced_answer = ''{"a":1}''\<close>
    by (simp add: fenced_answer_def clean_response_def str_defs)
  assume \<open>json_loads env ''{"a":1}'' = Inr v\<close>
  then show "parse_content env (Some fenced_answer) = Inr v"
    by (simp add: parse_content_def c)
qed

theorem clean_response_markers_witness:
  \<open>json_loads example_env ''{"a":1}'' = Inr (JObj [(''a'', JInt 1)]) \<and>
   parse_content example_env (Some fenced_answer) = Inr (JObj [(''a'', JInt 1)])\<close>
  using clean_response_markers [of fenced_answer example_env "JObj [(''a'', JInt 1)]"]
  by (simp add: example_defs)

text \<open>
  Claim C5. For every request to upload-resume or generate-questions whose scratch file was
  written, the scratch file is absent when the request completes, on every exit path, and no
  other file is touched.
\<close>

theorem scratch_file_removed:
  "(lower (snd (splitext (filename file))) \<in> set allowed_extensions \<and>
    open_wb env (path_join UPLOAD_DIR (filename file)) = None \<longrightarrow>
      files (fst (upload_resume env w file)) =
        (files w)(path_join UPLOAD_DIR (filename file) := None)) \<and>
   (open_wb env (path_join UPLOAD_DIR (filename file)) = None \<longrightarrow>
      files (fst (generate_questions env w file)) =
        (files w)(path_join UPLOAD_DIR (filename file) := None))"
proof (intro conjI impI)
  let ?p = "path_join UPLOAD_DIR (filename file)"
  let ?w1 = "w\<lparr>files := (files w)(?p \<mapsto> content file)\<rparr>"
  assume a: "lower (snd (splitext (filename file))) \<in> set allowed_extensions \<and> open_wb env ?p = None"
  obtain w' r where t: "upload_resume_try env ?w1 ?p (filename file) = (w', r)"
    by (cases "upload_resume_try env ?w1 ?p (filename file)")
  then have "files w' = files ?w1" by (rule files_upload_resume_try)
  then show "files (fst (upload_resume env w file)) = (files w)(?p := None)"
    using a t by (simp add: upload_resume_def Let_def files_remove_if_exists split: sum.splits)
next
  let ?p = "path_join UPLOAD_DIR (filename file)"
  let ?w1 = "w\<lparr>files := (files w)(?p \<mapsto> content file)\<rparr>"
  assume a: "open_wb env ?p = None"
  obtain w' r where t: "generate_questions_try env ?w1 ?p (filename file) = (w', r)"
    by (cases "generate_questions_try env ?w1 ?p (filename file)")
  then have "files w' = files ?w1" by (rule files_generate_questions_try)
  then show "files (fst (generate_questions env w file)) = (files w)(?p := None)"
    using a t by (simp add: generate_questions_def Let_def files_remove_if_exists split: sum.splits)
qed

theorem scratch_file_removed_witness:
  "files (fst (upload_resume example_env empty_world example_upload)) ''uploads/cv.txt'' = None \<and>
   files (fst (generate_questions example_env empty_world example_upload)) ''uploads/cv.txt'' = None"
  using scratch_file_removed [of example_upload example_env empty_world] example_ext
  by (simp add: example_defs path_join_def UPLOAD_DIR_def str_defs)

text \<open>
  Claim C6. For every filename whose lower-cased extension is not one of \<open>.pdf\<close>,
  \<open>.docx\<close>, \<open>.txt\<close>, upload-resume returns HTTP 400 with a message that lists the allowed
  extensions, and the state is unchanged: nothing is written and nothing is sent.
\<close>

theorem upload_resume_rejects_extension:
  assumes "lower (snd (splitext (filename file))) \<notin> set allowed_extensions"
  shows "upload_resume env w file =
           (w, HTTPError 400 ''File type not supported. Please upload .pdf, .docx, .txt'')"
proof -
  have "join '', '' allowed_extensions = ''.pdf, .docx, .txt''"
    by (simp add: allowed_extensions_def)
  then show ?thesis using assms by (simp add: upload_resume_def Let_def)
qed

theorem upload_resume_rejects_extension_witness:
  "lower (snd (splitext ''resume.xyz'')) = ''.xyz'' \<and>
   upload_resume example_env empty_world \<lparr>filename = ''resume.xyz'', content = ''data''\<rparr> =
     (empty_world, HTTPError 400 ''File type not supported. Please upload .pdf, .docx, .txt'')"
  using upload_resume_rejects_extension [of "\<lparr>filename = ''resume.xyz'', content = ''data''\<rparr>"
      example_env empty_world]
  by (simp add: splitext_def rfind_def Let_def lower_def lower_char_def upper_letters_def
      lower_letters_def allowed_extensions_def)

text \<open>
  Claim C7. The extraction dispatcher selects the PDF extractor for names ending in
  \<open>.pdf\<close>, the DOCX extractor for names ending in \<open>.docx\<close>, the text read for names ending
  in \<open>.txt\<close>, and fails with the unsupported-type error for every other name.
\<close>

theorem extract_text_from_file_dispatch:
  "(endswith ''.pdf'' name \<longrightarrow>
      extract_text_from_file env fs file_path name = extract_text_from_pdf env fs file_path) \<and>
   (endswith ''.docx'' name \<longrightarrow>
      extract_text_from_file env fs file_path name = extract_text_from_docx env fs file_path) \<and>
   (endswith ''.txt'' name \<longrightarrow>
      extract_text_from_file env fs file_path name = read_text_file env fs file_path) \<and>
   (\<not> endswith ''.pdf'' name \<and> \<not> endswith ''.docx'' name \<and> \<not> endswith ''.txt'' name \<longrightarrow>
      extract_text_from_file env fs file_path name = Inl (ValueError ''Unsupported file type''))"
proof -
  have "endswith ''.docx'' name \<Longrightarrow> \<not> endswith ''.pdf'' name"
    by (auto dest!: endswith_last)
  moreover have "endswith ''.txt'' name \<Longrightarrow> \<not> endswith ''.pdf'' name \<and> \<not> endswith ''.docx'' name"
    by (auto dest!: endswith_last)
  ultimately show ?thesis
    by (auto simp: extract_text_from_file_def)
qed

theorem extract_text_from_file_dispatch_witness:
  "extract_text_from_file example_env [''uploads/cv.pdf'' \<mapsto> ''%PDF''] ''uploads/cv.pdf'' ''cv.pdf'' =
     Inr ''page one, page two'' \<and>
   extract_text_from_file example_env [''uploads/cv.docx'' \<mapsto> ''PK''] ''uploads/cv.docx'' ''cv.docx'' =
     Inr ''first paragraph\<newline>second paragraph'' \<and>
   extract_text_from_file example_env [''uploads/cv.txt'' \<mapsto> ''plain text''] ''uploads/cv.txt'' ''cv.txt'' =
     Inr ''plain text'' \<and>
   extract_text_from_file example_env [''uploads/cv.xyz'' \<mapsto> ''data''] ''uploads/cv.xyz'' ''cv.xyz'' =
     Inl (ValueError ''Unsupported file type'')"
  using extract_text_from_file_dispatch [of "''cv.pdf''" example_env "[''uploads/cv.pdf'' \<mapsto> ''%PDF'']" "''uploads/cv.pdf''"]
    extract_text_from_file_dispatch [of "''cv.docx''" example_env "[''uploads/cv.docx'' \<mapsto> ''PK'']" "''uploads/cv.docx''"]
    extract_text_from_file_dispatch [of "''cv.txt''" example_env "[''uploads/cv.txt'' \<mapsto> ''plain text'']" "''uploads/cv.txt''"]
    extract_text_from_file_dispatch [of "''cv.xyz''" example_env "[''uploads/cv.xyz'' \<mapsto> ''data'']" "''uploads/cv.xyz''"]
  by (simp add: endswith_def extract_text_from_pdf_def extract_text_from_docx_def read_text_file_def
      open_rb_def example_env_def)

text \<open>
  Claim C8. An upload that reaches the analysis and gets an analysis object back is answered,
  once the framework has rendered it, with the envelope that holds the success flag, the
  original filename, the analysis object, and the first 500 characters of the extracted text
  followed by three dots; and every body that upload-resume returns is such an envelope.
\<close>

theorem upload_resume_success_envelope:
  "(lower (snd (splitext (filename file))) \<in> set allowed_extensions \<and>
    open_wb env (path_join UPLOAD_DIR (filename file)) = None \<and>
    extract_text_from_file env ((files w)(path_join UPLOAD_DIR (filename file) \<mapsto> content file))
      (path_join UPLOAD_DIR (filename file)) (filename file) = Inr text \<and>
    50 \<le> length (strip text) \<and>
    snd (analyze_resume_with_ai env
      (w\<lparr>files := (files w)(path_join UPLOAD_DIR (filename file) \<mapsto> content file)\<rparr>) text) =
      Inr analysis \<and>
    render_json env
      (JObj [(''success'', JBool True), (''filename'', JStr (filename file)),
             (''analysis'', analysis),
             (''resume_text'', JStr (take 500 text @ ''...''))]) = None \<longrightarrow>
      snd (upload_resume env w file) =
        Ok200 (JObj [(''success'', JBool True), (''filename'', JStr (filename file)),
                     (''analysis'', analysis),
                     (''resume_text'', JStr (take 500 text @ ''...''))])) \<and>
   (upload_resume env w file = (w', Ok200 body) \<longrightarrow>
      (\<exists>text analysis.
         extract_text_from_file env ((files w)(path_join UPLOAD_DIR (filename file) \<mapsto> content file))
           (path_join UPLOAD_DIR (filename file)) (filename file) = Inr text \<and>
         snd (analyze_resume_with_ai env
           (w\<lparr>files := (files w)(path_join UPLOAD_DIR (filename file) \<mapsto> content file)\<rparr>) text) =
           Inr analysis \<and>
         body = JObj [(''success'', JBool True), (''filename'', JStr (filename file)),
                      (''analysis'', analysis),
                      (''resume_text'', JStr (take 500 text @ ''...''))]))"
proof (intro conjI impI)
  let ?p = "path_join UPLOAD_DIR (filename file)"
  let ?w1 = "w\<lparr>files := (files w)(?p \<mapsto> content file)\<rparr>"
  assume a: "lower (snd (splitext (filename file))) \<in> set allowed_extensions \<and>
    open_wb env ?p = None \<and>
    extract_text_from_file env ((files w)(?p \<mapsto> content file)) ?p (filename file) = Inr text \<and>
    50 \<le> length (strip text) \<and>
    snd (analyze_resume_with_ai env ?w1 text) = Inr analysis \<and>
    render_json env
      (JObj [(''success'', JBool True), (''filename'', JStr (filename file)),
             (''analysis'', analysis),
             (''resume_text'', JStr (take 500 text @ ''...''))]) = None"
  then have "upload_resume env w file =
           (w\<lparr>files := (files w)(?p := None), sent := sent w @ [analysis_request text]\<rparr>,
            case Inr analysis of
              Inl e \<Rightarrow> HTTPError 500 (''Error processing resume: '' @ exn_str env e)
            | Inr analysis \<Rightarrow> respond env (success_envelope (filename file) analysis text))"
    by (intro upload_resume_accepted) simp_all
  with a show "snd (upload_resume env w file) =
        Ok200 (JObj [(''success'', JBool True), (''filename'', JStr (filename file)),
                     (''analysis'', analysis),
                     (''resume_text'', JStr (take 500 text @ ''...''))])"
    by (simp add: success_envelope_def respond_def)
next
  assume "upload_resume env w file = (w', Ok200 body)"
  then show "\<exists>text analysis.
         extract_text_from_file env ((files w)(path_join UPLOAD_DIR (filename file) \<mapsto> content file))
           (path_join UPLOAD_DIR (filename file)) (filename file) = Inr text \<and>
         snd (analyze_resume_with_ai env
           (w\<lparr>files := (files w)(path_join UPLOAD_DIR (filename file) \<mapsto> content file)\<rparr>) text) =
           Inr analysis \<and>
         body = JObj [(''success'', JBool True), (''filename'', JStr (filename file)),
                      (''analysis'', analysis),
                      (''resume_text'', JStr (take 500 text @ ''...''))]"
    by (auto simp: upload_resume_def upload_resume_try_def success_envelope_def respond_def Let_def
        split: if_splits option.splits sum.splits prod.splits)
qed

theorem upload_resume_success_envelope_witness:
  "snd (upload_resume example_env empty_world example_upload) =
     Ok200 (JObj [(''success'', JBool True), (''filename'', JStr ''cv.txt''),
                  (''analysis'', JObj [(''a'', JInt 1)]),
                  (''resume_text'', JStr (example_text @ ''...''))]) \<and>
   snd (upload_resume example_env empty_world long_upload) =
     Ok200 (JObj [(''success'', JBool True), (''filename'', JStr ''cv.txt''),
                  (''analysis'', JObj [(''a'', JInt 1)]),
                  (''resume_text'', JStr (replicate 500 CHR ''a'' @ ''...''))])"
proof -
  have an: "snd (analyze_resume_with_ai example_env w t) = Inr (JObj [(''a'', JInt 1)])" for w t
    by (rule analyze_decoded [of _ _ fenced_answer])
      (simp_all add: example_env_def clean_response_fenced_answer)
  have long: "50 \<le> length (strip (replicate 600 CHR ''a''))"
    by (simp add: strip_replicate isspace_def)
  have 1: "snd (upload_resume example_env empty_world example_upload) =
     Ok200 (JObj [(''success'', JBool True), (''filename'', JStr ''cv.txt''),
                  (''analysis'', JObj [(''a'', JInt 1)]),
                  (''resume_text'', JStr (example_text @ ''...''))])"
    using upload_resume_success_envelope [of example_upload example_env empty_world example_text
        "JObj [(''a'', JInt 1)]" empty_world JNull]
      an example_ext example_text_long example_extract [of example_env empty_world example_text]
    by (simp add: example_defs example_text_def)
  have 2: "snd (upload_resume example_env empty_world long_upload) =
     Ok200 (JObj [(''success'', JBool True), (''filename'', JStr ''cv.txt''),
                  (''analysis'', JObj [(''a'', JInt 1)]),
                  (''resume_text'', JStr (replicate 500 CHR ''a'' @ ''...''))])"
    using upload_resume_success_envelope [of long_upload example_env empty_world
        "replicate 600 CHR ''a''" "JObj [(''a'', JInt 1)]" empty_world JNull]
      an long example_ext example_extract [of example_env empty_world "replicate 600 CHR ''a''"]
    by (simp add: example_defs)
  from 1 2 show ?thesis by simp
qed

text \<open>
  Claim C9, as stated: \<open>evaluate_answer\<close> never raises, so the HTTP 500 of its endpoint is
  unreachable. The handler prints the error before it returns the fallback; when the print
  raises, as on an error text that standard output cannot encode, the exception leaves
  \<open>evaluate_answer\<close> and the endpoint answers with its HTTP 500.
\<close>

theorem evaluate_answer_print_counterexample:
  "snd (evaluate_answer ascii_console_env empty_world ''Why Go?'' ''Because I like it.'') =
     Inl cannot_encode \<and>
   snd (evaluate_answer_endpoint ascii_console_env empty_world
          \<lparr>question = ''Why Go?'', answer = ''Because I like it.''\<rparr>) =
     HTTPError 500 (''Error evaluating answer: '' @ exn_str ascii_console_env cannot_encode)"
  by (simp add: evaluate_answer_endpoint_def evaluate_answer_def evaluation_handler_def
      print_then_def send_def ascii_console_env_def example_env_def refused_message_def)

text \<open>
  Claim C9, amended. For every question/answer pair, every exception of the remote call or
  of the parsing is caught in \<open>evaluate_answer\<close> and, once the print of the handler
  completes, becomes the fixed fallback, whose score is 6; the endpoint then returns HTTP 200
  with the success flag set once the framework has rendered the body, as it does with the
  decoded value when nothing raises. Where neither \<open>print\<close> nor the rendering ever raises,
  \<open>evaluate_answer\<close> always returns a value and the endpoint always returns HTTP 200.
\<close>

theorem evaluate_answer_outcomes:
  "(chat_completion env (evaluation_request q a) = Inr c \<and> parse_content env c = Inr v \<and>
    render_json env (JObj [(''success'', JBool True), (''evaluation'', v)]) = None \<longrightarrow>
      snd (evaluate_answer env w q a) = Inr v \<and>
      snd (evaluate_answer_endpoint env w \<lparr>question = q, answer = a\<rparr>) =
        Ok200 (JObj [(''success'', JBool True), (''evaluation'', v)])) \<and>
   (chat_completion env (evaluation_request q a) = Inl e \<and>
    print_out env (''Error evaluating answer: '' @ exn_str env e) = None \<and>
    render_json env (JObj [(''success'', JBool True), (''evaluation'', evaluation_fallback)]) = None \<longrightarrow>
      snd (evaluate_answer env w q a) = Inr evaluation_fallback \<and>
      snd (evaluate_answer_endpoint env w \<lparr>question = q, answer = a\<rparr>) =
        Ok200 (JObj [(''success'', JBool True), (''evaluation'', evaluation_fallback)])) \<and>
   (chat_completion env (evaluation_request q a) = Inr c \<and> parse_content env c = Inl e' \<and>
    print_out env (''Error evaluating answer: '' @ exn_str env e') = None \<and>
    render_json env (JObj [(''success'', JBool True), (''evaluation'', evaluation_fallback)]) = None \<longrightarrow>
      snd (evaluate_answer env w q a) = Inr evaluation_fallback \<and>
      snd (evaluate_answer_endpoint env w \<lparr>question = q, answer = a\<rparr>) =
        Ok200 (JObj [(''success'', JBool True), (''evaluation'', evaluation_fallback)])) \<and>
   ((\<forall>text. print_out env text = None) \<and> (\<forall>body. render_json env body = None) \<longrightarrow>
      (\<exists>r. snd (evaluate_answer env w q a) = Inr r \<and>
           snd (evaluate_answer_endpoint env w \<lparr>question = q, answer = a\<rparr>) =
             Ok200 (JObj [(''success'', JBool True), (''evaluation'', r)]))) \<and>
   json_get ''score'' evaluation_fallback = Some (JInt 6)"
proof (intro conjI impI)
  assume "(\<forall>text. print_out env text = None) \<and> (\<forall>body. render_json env body = None)"
  then show "\<exists>r. snd (evaluate_answer env w q a) = Inr r \<and>
           snd (evaluate_answer_endpoint env w \<lparr>question = q, answer = a\<rparr>) =
             Ok200 (JObj [(''success'', JBool True), (''evaluation'', r)])"
    by (auto simp: evaluate_answer_def evaluate_answer_endpoint_def evaluation_handler_def
        print_then_def respond_def send_def split: sum.splits)
next
  show "json_get ''score'' evaluation_fallback = Some (JInt 6)"
    by (simp add: evaluation_fallback_def)
qed (simp_all add: evaluate_answer_def evaluate_answer_endpoint_def evaluation_handler_def
    print_then_def respond_def send_def)

theorem evaluate_answer_outcomes_witness:
  "snd (evaluate_answer_endpoint example_env empty_world
          \<lparr>question = ''Why Go?'', answer = ''Because I like it.''\<rparr>) =
     Ok200 (JObj [(''success'', JBool True), (''evaluation'', JObj [(''a'', JInt 1)])]) \<and>
   snd (evaluate_answer_endpoint failing_env empty_world
          \<lparr>question = ''Why Go?'', answer = ''Because I like it.''\<rparr>) =
     Ok200 (JObj [(''success'', JBool True), (''evaluation'', evaluation_fallback)]) \<and>
   snd (evaluate_answer_endpoint garbled_env empty_world
          \<lparr>question = ''Why Go?'', answer = ''Because I like it.''\<rparr>) =
     Ok200 (JObj [(''success'', JBool True), (''evaluation'', evaluation_fallback)])"
proof -
  have ok: "parse_content example_env (Some fenced_answer) = Inr (JObj [(''a'', JInt 1)])"
    by (simp add: parse_content_def clean_response_fenced_answer example_env_def)
  have g: "parse_content garbled_env (Some ''Sorry, I cannot do that.'') = Inl expecting_value"
    by (simp add: parse_content_def example_env_def garbled_env_def clean_response_def str_defs)
  have 1: "snd (evaluate_answer_endpoint example_env empty_world
          \<lparr>question = ''Why Go?'', answer = ''Because I like it.''\<rparr>) =
     Ok200 (JObj [(''success'', JBool True), (''evaluation'', JObj [(''a'', JInt 1)])])"
    using evaluate_answer_outcomes [of example_env "''Why Go?''" "''Because I like it.''"
        "Some fenced_answer" "JObj [(''a'', JInt 1)]" empty_world "OtherError ''unused''"
        "OtherError ''unused''"] ok
    by (simp add: example_env_def)
  have 2: "snd (evaluate_answer_endpoint failing_env empty_world
          \<lparr>question = ''Why Go?'', answer = ''Because I like it.''\<rparr>) =
     Ok200 (JObj [(''success'', JBool True), (''evaluation'', evaluation_fallback)])"
    using evaluate_answer_outcomes [of failing_env "''Why Go?''" "''Because I like it.''"
        "Some ''unused''" JNull empty_world "OtherError ''Connection error.''"
        "OtherError ''unused''"]
    by (simp add: example_env_def failing_env_def)
  have 3: "snd (evaluate_answer_endpoint garbled_env empty_world
          \<lparr>question = ''Why Go?'', answer = ''Because I like it.''\<rparr>) =
     Ok200 (JObj [(''success'', JBool True), (''evaluation'', evaluation_fallback)])"
    using evaluate_answer_outcomes [of garbled_env "''Why Go?''" "''Because I like it.''"
        "Some ''Sorry, I cannot do that.''" JNull empty_world "OtherError ''unused''"
        expecting_value] g
    by (simp add: example_env_def garbled_env_def)
  from 1 2 3 show ?thesis by simp
qed




end
